theory Spec2Isabelle
  imports Complex_Main
begin

section \<open>Values, errors and Python text primitives\<close>

text \<open>
  The query structures built by \<open>utils/es.py\<close> are Python dictionaries, lists, strings
  and numbers that are handed to the search engine as JSON. A dictionary is an association
  list in insertion order (its keys are distinct by construction); the float literals of the
  source (\<open>1.1\<close>) are decimal literals \<open>JDec m e\<close>, standing for \<open>m / 10 ^ e\<close>.
  Text is modelled on ASCII code points.
\<close>

datatype json =
    JNull
  | JBool bool
  | JInt int
  | JDec int nat
  | JStr string
  | JList "json list"
  | JObj "(string \<times> json) list"

datatype error =
    ValueError
  | IndexError
  | QueryError string

definition lower_char :: "char \<Rightarrow> char" where
  "lower_char c =
     (case map_of (zip ''ABCDEFGHIJKLMNOPQRSTUVWXYZ'' ''abcdefghijklmnopqrstuvwxyz'') c of
        None \<Rightarrow> c
      | Some d \<Rightarrow> d)"

definition lower :: "string \<Rightarrow> string" where
  "lower s = map lower_char s"

definition is_space :: "char \<Rightarrow> bool" where
  "is_space c =
     (c \<in> set [CHR 0x09, CHR 0x0A, CHR 0x0B, CHR 0x0C, CHR 0x0D,
                CHR 0x1C, CHR 0x1D, CHR 0x1E, CHR 0x1F, CHR 0x20])"

definition strip_with :: "(char \<Rightarrow> bool) \<Rightarrow> string \<Rightarrow> string" where
  "strip_with p s = rev (dropWhile p (rev (dropWhile p s)))"

definition strip :: "string \<Rightarrow> string" where
  "strip s = strip_with is_space s"

definition startswith :: "string \<Rightarrow> string \<Rightarrow> bool" where
  "startswith s p = (take (length p) s = p)"

fun split_comma :: "string \<Rightarrow> string list" where
  "split_comma [] = [[]]"
| "split_comma (c # cs) =
     (if c = CHR '','' then [] # split_comma cs
      else (case split_comma cs of
              [] \<Rightarrow> [[c]]
            | w # ws \<Rightarrow> (c # w) # ws))"

definition is_digit :: "char \<Rightarrow> bool" where
  "is_digit c = (c \<in> set ''0123456789'')"

definition digit_val :: "char \<Rightarrow> nat" where
  "digit_val c = of_char c - 48"

text \<open>
  Python's \<open>int(s)\<close> on text, base ten: surrounding whitespace is skipped (for ASCII
  text the six characters of C's \<open>isspace\<close>, fewer than \<open>str.strip\<close> removes), one
  sign is allowed, then digits, where a single underscore may stand between two digits.
  \<open>None\<close> is the \<open>ValueError\<close> of the builtin.
\<close>

definition is_int_space :: "char \<Rightarrow> bool" where
  "is_int_space c =
     (c \<in> set [CHR 0x09, CHR 0x0A, CHR 0x0B, CHR 0x0C, CHR 0x0D, CHR 0x20])"

fun parse_digits :: "nat \<Rightarrow> string \<Rightarrow> nat option" where
  "parse_digits acc [] = Some acc"
| "parse_digits acc [c] = (if is_digit c then Some (10 * acc + digit_val c) else None)"
| "parse_digits acc (c # d # ds) =
     (if is_digit c then parse_digits (10 * acc + digit_val c) (d # ds)
      else if c = CHR ''_'' \<and> is_digit d then parse_digits (10 * acc + digit_val d) ds
      else None)"

definition digits_value :: "string \<Rightarrow> nat option" where
  "digits_value s =
     (case s of
        [] \<Rightarrow> None
      | c # cs \<Rightarrow> if is_digit c then parse_digits (digit_val c) cs else None)"

definition py_int :: "string \<Rightarrow> int option" where
  "py_int s =
     (case strip_with is_int_space s of
        [] \<Rightarrow> None
      | c # cs \<Rightarrow>
          if c = CHR ''+'' then map_option int (digits_value cs)
          else if c = CHR ''-'' then map_option (\<lambda>n. - int n) (digits_value cs)
          else map_option int (digits_value (c # cs)))"

text \<open>
  Modelled from the spec: \<open>is_int\<close> is imported from the \<open>biothings\<close> library and is
  not part of the sources; the specification reads it as "parses fully as an integer"
  and "integer-shaped", that is, the builtin \<open>int\<close> accepts the value.
\<close>

definition is_int_str :: "string \<Rightarrow> bool" where
  "is_int_str s = (py_int s \<noteq> None)"

section \<open>Species tables and the \<open>ESQuery\<close> class\<close>

definition TAXONOMY :: "(string \<times> int) list" where
  "TAXONOMY =
     [(''human'', 9606),
      (''mouse'', 10090),
      (''rat'', 10116),
      (''fruitfly'', 7227),
      (''nematode'', 6239),
      (''zebrafish'', 7955),
      (''thale-cress'', 3702),
      (''frog'', 8364),
      (''pig'', 9823)]"

text \<open>
  A resolved species value is the text \<open>'all'\<close> or a list of taxonomy ids.
\<close>

datatype species = AllSpecies | Ids "int list"

text \<open>
  The two index names come from the configuration module, which is not part of the
  sources; they are kept symbolic and taken to be different names.
\<close>

datatype index_name = ES_INDEX_NAME | ES_INDEX_NAME_TIER1

record esquery =
  index :: index_name

text \<open>
  \<open>__init__\<close> assigns \<open>_default_species\<close> and \<open>_tier_1_species\<close> once and no
  method reassigns them, so they are constants here.
\<close>

definition default_species :: "int list" where
  "default_species = [9606, 10090, 10116]"

definition tier_1_species :: "int list" where
  "tier_1_species = remdups (map snd TAXONOMY)"

text \<open>
  \<open>_set_index\<close>: \<open>len(set(species) - self._tier_1_species) > 0\<close> counts the distinct
  ids of the selector that are not tier-1 ids.
\<close>

definition set_index :: "species \<Rightarrow> esquery \<Rightarrow> esquery" where
  "set_index sp self =
     (case sp of
        AllSpecies \<Rightarrow> self\<lparr>index := ES_INDEX_NAME\<rparr>
      | Ids ts \<Rightarrow>
          if length (filter (\<lambda>t. t \<notin> set tier_1_species) (remdups ts)) > 0
          then self\<lparr>index := ES_INDEX_NAME\<rparr>
          else self\<lparr>index := ES_INDEX_NAME_TIER1\<rparr>)"

text \<open>
  The selector handed to \<open>_cleaned_species\<close>: absent, an integer, text, a sequence of
  integers and text, or a value of any other type. The constructors stand for the tests
  \<open>is None\<close>, \<open>isinstance(species, int)\<close> and the library's \<open>is_str\<close> and \<open>is_seq\<close>
  (text; a list or a tuple).
\<close>

datatype tok = TokInt int | TokStr string

datatype selector =
    SelNone
  | SelInt int
  | SelStr string
  | SelSeq "tok list"
  | SelOther

text \<open>
  Modelled from the spec: \<open>is_int(s)\<close> followed by \<open>int(s)\<close> on an element of a
  sequence (see \<open>is_int_str\<close>): \<open>int_tok s\<close> is the integer when \<open>is_int\<close> holds, and
  an integer is integer-shaped.
\<close>

definition int_tok :: "tok \<Rightarrow> int option" where
  "int_tok t = (case t of TokInt n \<Rightarrow> Some n | TokStr s \<Rightarrow> py_int s)"

text \<open>\<open>TAXONOMY[s]\<close> when \<open>s in TAXONOMY\<close>; the keys of the table are text.\<close>

definition taxonomy_tok :: "tok \<Rightarrow> int option" where
  "taxonomy_tok t = (case t of TokInt n \<Rightarrow> None | TokStr s \<Rightarrow> map_of TAXONOMY s)"

text \<open>
  The loop of \<open>_cleaned_species\<close> over the tokens, appending to \<open>_species\<close>.
\<close>

fun resolve_loop :: "int list \<Rightarrow> tok list \<Rightarrow> int list" where
  "resolve_loop acc [] = acc"
| "resolve_loop acc (s # ss) =
     (case int_tok s of
        Some n \<Rightarrow> resolve_loop (acc @ [n]) ss
      | None \<Rightarrow>
          (case taxonomy_tok s of
             Some t \<Rightarrow> resolve_loop (acc @ [t]) ss
           | None \<Rightarrow> resolve_loop acc ss))"

definition cleaned_species :: "selector \<Rightarrow> bool \<Rightarrow> error + species option" where
  "cleaned_species sel default_to_none =
     (case sel of
        SelNone \<Rightarrow> Inr (if default_to_none then None else Some (Ids default_species))
      | SelInt n \<Rightarrow> Inr (Some (Ids [n]))
      | SelStr s \<Rightarrow>
          if lower s = ''all'' then Inr (Some AllSpecies)
          else Inr (Some (Ids (resolve_loop []
                 (map (\<lambda>x. TokStr (lower (strip x))) (split_comma s)))))
      | SelSeq ss \<Rightarrow> Inr (Some (Ids (resolve_loop [] ss)))
      | SelOther \<Rightarrow> Inl ValueError)"

section \<open>The \<open>ESQueryBuilder\<close> class\<close>

text \<open>
  The fields \<open>__init__\<close> leaves in the builder: the resolved species (\<open>'all'\<close> or a
  list of taxonomy ids), the optional species facet filter, the two flags, the three
  optional comma-split name lists and the pass-through options that survived the
  allow-list.
\<close>

record builder =
  species :: species
  species_facet_filter :: "species option"
  entrezonly :: bool
  ensemblonly :: bool
  userfilter :: "string list option"
  existsfilter :: "string list option"
  missingfilter :: "string list option"
  query_options :: "(string \<times> json) list"

text \<open>
  What the builder calls and the sources do not hold, taken as parameters:
  the effect of \<open>_translate_datasource\<close> (regular-expression rewriting by the
  configuration table \<open>SOURCE_TRANSLATORS\<close>), the inherited methods
  \<open>generate_query\<close> and \<open>add_query_filters\<close> of the library's base class, and the
  saved-filter store behind \<open>UserFilters().get\<close> (the \<open>'filter'\<close> entry of a saved
  document, \<open>None\<close> when the name resolves to nothing). The translation, the filter
  wrapper and the store are taken to return; \<open>generate_query\<close> may raise.
\<close>

record env =
  translate_datasource :: "string \<Rightarrow> string"
  generate_query :: "builder \<Rightarrow> string \<Rightarrow> error + json"
  add_query_filters :: "builder \<Rightarrow> json \<Rightarrow> json"
  user_filter :: "string \<Rightarrow> json option"

definition nohits_query :: json where
  "nohits_query = JObj [(''match'', JObj [(''non_exist_field'', JStr [])])]"

subsection \<open>Dictionaries\<close>

fun dict_set :: "string \<Rightarrow> json \<Rightarrow> (string \<times> json) list \<Rightarrow> (string \<times> json) list" where
  "dict_set k v [] = [(k, v)]"
| "dict_set k v (kv # kvs) = (if fst kv = k then (k, v) # kvs else kv # dict_set k v kvs)"

definition dict_update :: "(string \<times> json) list \<Rightarrow> (string \<times> json) list \<Rightarrow> (string \<times> json) list" where
  "dict_update d other = foldl (\<lambda>acc kv. dict_set (fst kv) (snd kv) acc) d other"

text \<open>
  \<open>if self._query_options: _q.update(self._query_options)\<close>, the last step of every
  builder method.
\<close>

definition with_options :: "builder \<Rightarrow> (string \<times> json) list \<Rightarrow> json" where
  "with_options self q =
     (if query_options self \<noteq> [] then JObj (dict_update q (query_options self)) else JObj q)"

subsection \<open>Species values inside a query\<close>

definition species_len :: "species \<Rightarrow> nat" where
  "species_len sp = (case sp of AllSpecies \<Rightarrow> length ''all'' | Ids ts \<Rightarrow> length ts)"

definition species_truthy :: "species \<Rightarrow> bool" where
  "species_truthy sp = (case sp of AllSpecies \<Rightarrow> True | Ids ts \<Rightarrow> ts \<noteq> [])"

definition species_json :: "species \<Rightarrow> json" where
  "species_json sp = (case sp of AllSpecies \<Rightarrow> JStr ''all'' | Ids ts \<Rightarrow> JList (map JInt ts))"

text \<open>\<open>sp[0]\<close> on a value that is not empty: the first id, or the first letter of \<open>'all'\<close>.\<close>

definition species_first :: "species \<Rightarrow> json" where
  "species_first sp = (case sp of AllSpecies \<Rightarrow> JStr ''a'' | Ids ts \<Rightarrow> JInt (ts ! 0))"

subsection \<open>Scope filters and facet filters\<close>

definition get_query_filters :: "env \<Rightarrow> builder \<Rightarrow> json" where
  "get_query_filters E self =
     (let filters = [];
          filters =
            (if species_truthy (species self) \<and> species self \<noteq> AllSpecies then
               (if species_len (species self) = 1
                then filters @ [JObj [(''term'', JObj [(''taxid'', species_first (species self))])]]
                else filters @ [JObj [(''terms'', JObj [(''taxid'', species_json (species self))])]])
             else filters);
          filters =
            (if entrezonly self
             then filters @ [JObj [(''exists'', JObj [(''field'', JStr ''entrezgene'')])]]
             else filters);
          filters =
            (if ensemblonly self
             then filters @ [JObj [(''exists'', JObj [(''field'', JStr ''ensemblgene'')])]]
             else filters);
          filters =
            (case userfilter self of
               None \<Rightarrow> filters
             | Some fnames \<Rightarrow>
                 foldl (\<lambda>acc fname.
                          case user_filter E fname of
                            None \<Rightarrow> acc
                          | Some f \<Rightarrow> acc @ [f])
                       filters fnames);
          filters =
            (case existsfilter self of
               None \<Rightarrow> filters
             | Some fs \<Rightarrow>
                 foldl (\<lambda>acc f. acc @ [JObj [(''exists'', JObj [(''field'', JStr f)])]])
                       filters fs);
          filters =
            (case missingfilter self of
               None \<Rightarrow> filters
             | Some fs \<Rightarrow>
                 foldl (\<lambda>acc f. acc @ [JObj [(''missing'', JObj [(''field'', JStr f)])]])
                       filters fs)
      in if filters \<noteq> [] then
           (if length filters = 1 then filters ! 0 else JObj [(''and'', JList filters)])
         else JList filters)"

definition add_facet_filters :: "builder \<Rightarrow> (string \<times> json) list \<Rightarrow> (string \<times> json) list" where
  "add_facet_filters self q =
     (let filters = [];
          filters =
            (case species_facet_filter self of
               None \<Rightarrow> filters
             | Some sff \<Rightarrow>
                 if species_truthy sff then
                   (if species_len (species self) = 1
                    then filters @ [JObj [(''term'', JObj [(''taxid'', species_first sff)])]]
                    else filters @ [JObj [(''terms'', JObj [(''taxid'', species_json sff)])]])
                 else filters)
      in if filters \<noteq> [] then
           dict_set ''filter''
             (if length filters = 1 then filters ! 0 else JObj [(''and'', JList filters)]) q
         else q)"

subsection \<open>The score envelope\<close>

definition add_species_custom_filters_score :: "json \<Rightarrow> json" where
  "add_species_custom_filters_score q =
     JObj [(''function_score'', JObj
       [(''query'', q),
        (''functions'', JList
          [JObj [(''filter'', JObj [(''term'', JObj [(''name'', JStr ''pseudogene'')])]),
                 (''boost_factor'', JStr ''0.5'')],
           JObj [(''filter'', JObj [(''term'', JObj [(''taxid'', JInt 9606)])]),
                 (''boost_factor'', JStr ''1.55'')],
           JObj [(''filter'', JObj [(''term'', JObj [(''taxid'', JInt 10090)])]),
                 (''boost_factor'', JStr ''1.3'')],
           JObj [(''filter'', JObj [(''term'', JObj [(''taxid'', JInt 10116)])]),
                 (''boost_factor'', JStr ''1.1'')]]),
        (''score_mode'', JStr ''first'')])]"

subsection \<open>The relevance (dis-max) builder\<close>

definition dis_max_template :: json where
  "dis_max_template =
     JObj [(''dis_max'', JObj
       [(''tie_breaker'', JInt 0),
        (''boost'', JInt 1),
        (''queries'', JList
          [JObj [(''function_score'', JObj
             [(''query'', JObj [(''match'', JObj [(''symbol'', JObj
                 [(''query'', JStr ''%(q)s''),
                  (''analyzer'', JStr ''whitespace_lowercase'')])])]),
              (''weight'', JInt 5)])],
           JObj [(''function_score'', JObj
             [(''query'', JObj [(''match_phrase'', JObj [(''name'', JStr ''%(q)s'')])]),
              (''weight'', JInt 4)])],
           JObj [(''function_score'', JObj
             [(''query'', JObj [(''match'', JObj [(''name'', JObj
                 [(''query'', JStr ''%(q)s''),
                  (''operator'', JStr ''and''),
                  (''analyzer'', JStr ''whitespace_lowercase'')])])]),
              (''weight'', JInt 3)])],
           JObj [(''function_score'', JObj
             [(''query'', JObj [(''match'', JObj [(''unigene'', JObj
                 [(''query'', JStr ''%(q)s''),
                  (''analyzer'', JStr ''string_lowercase'')])])]),
              (''weight'', JDec 11 1)])],
           JObj [(''function_score'', JObj
             [(''query'', JObj [(''match'', JObj [(''go'', JObj
                 [(''query'', JStr ''%(q)s''),
                  (''analyzer'', JStr ''string_lowercase'')])])]),
              (''weight'', JDec 11 1)])],
           JObj [(''function_score'', JObj
             [(''query'', JObj [(''query_string'', JObj
                 [(''query'', JStr ''%(q)s''),
                  (''default_operator'', JStr ''AND''),
                  (''auto_generate_phrase_queries'', JBool True)])]),
              (''weight'', JInt 1)])]])])]"

text \<open>
  \<open>json.loads(json.dumps(_query) % {'q': q})\<close>, read on the tree: the only \<open>%\<close>
  conversions in the dumped text are the string leaves \<open>%(q)s\<close>, each of which
  becomes \<open>q\<close>. The decoder is strict: a string that holds a control character
  (a code below 32) makes it raise \<open>ValueError\<close>. This reading is for a \<open>q\<close> without
  double quotes and backslashes, which is what \<open>dis_max_query\<close> passes.
\<close>

fun subst_q :: "string \<Rightarrow> json \<Rightarrow> json" where
  "subst_q q (JStr s) = (if s = ''%(q)s'' then JStr q else JStr s)"
| "subst_q q (JList xs) = JList (map (subst_q q) xs)"
| "subst_q q (JObj kvs) = JObj (map (\<lambda>kv. (fst kv, subst_q q (snd kv))) kvs)"
| "subst_q q j = j"

definition is_control :: "char \<Rightarrow> bool" where
  "is_control c = ((of_char c :: nat) < 32)"

definition loads_template :: "json \<Rightarrow> string \<Rightarrow> error + json" where
  "loads_template t q =
     (if list_ex is_control q then Inl ValueError else Inr (subst_q q t))"

text \<open>\<open>_query['dis_max']['queries'] = v\<close>.\<close>

definition set_dis_max_queries :: "json \<Rightarrow> json \<Rightarrow> json" where
  "set_dis_max_queries v j =
     (case j of
        JObj kvs \<Rightarrow>
          (case map_of kvs ''dis_max'' of
             Some (JObj d) \<Rightarrow> JObj (dict_set ''dis_max'' (JObj (dict_set ''queries'' v d)) kvs)
           | _ \<Rightarrow> j)
      | _ \<Rightarrow> j)"

definition dis_max_query :: "string \<Rightarrow> error + json" where
  "dis_max_query q0 =
     (let q = filter (\<lambda>c. c \<noteq> CHR 0x5C) (filter (\<lambda>c. c \<noteq> CHR 0x22) q0)
      in case loads_template dis_max_template q of
           Inl e \<Rightarrow> Inl e
         | Inr j \<Rightarrow>
             (case py_int q of
                Some n \<Rightarrow>
                  Inr (set_dis_max_queries
                    (JList ([JObj [(''function_score'', JObj
                       [(''query'', JObj [(''term'', JObj [(''entrezgene'', JInt n)])]),
                        (''weight'', JInt 8)])]] @ [])) j)
              | None \<Rightarrow> Inr j))"

subsection \<open>Genomic intervals\<close>

text \<open>
  \<open>re.search(r'chr(?P<chr>\w+):(?P<gstart>[0-9,]+)-(?P<gend>[0-9,]+)', query)\<close>.
  At a start position the match is forced: \<open>\w+\<close> must take the whole run of word
  characters, because the colon that follows is not one, and likewise the first
  \<open>[0-9,]+\<close> before the hyphen; the last group is greedy. The search returns the match
  at the leftmost position that has one.
\<close>

definition is_word_char :: "char \<Rightarrow> bool" where
  "is_word_char c =
     (c \<in> set ''abcdefghijklmnopqrstuvwxyzABCDEFGHIJKLMNOPQRSTUVWXYZ0123456789_'')"

definition is_pos_char :: "char \<Rightarrow> bool" where
  "is_pos_char c = (c \<in> set ''0123456789,'')"

record interval =
  iv_chr :: string
  iv_gstart :: string
  iv_gend :: string
  iv_assembly :: "string option"

definition match_here :: "string \<Rightarrow> interval option" where
  "match_here s =
     (if startswith s ''chr'' then
        (let r = drop 3 s;
             w = takeWhile is_word_char r;
             r1 = dropWhile is_word_char r
         in if w = [] then None
            else (case r1 of
                    [] \<Rightarrow> None
                  | c1 # r2 \<Rightarrow>
                      if c1 \<noteq> CHR '':'' then None
                      else (let a = takeWhile is_pos_char r2;
                                r3 = dropWhile is_pos_char r2
                            in if a = [] then None
                               else (case r3 of
                                       [] \<Rightarrow> None
                                     | c2 # r4 \<Rightarrow>
                                         if c2 \<noteq> CHR ''-'' then None
                                         else (let b = takeWhile is_pos_char r4
                                               in if b = [] then None
                                                  else Some \<lparr>iv_chr = w, iv_gstart = a,
                                                             iv_gend = b,
                                                             iv_assembly = None\<rparr>)))))
      else None)"

fun re_search :: "string \<Rightarrow> interval option" where
  "re_search [] = match_here []"
| "re_search (c # cs) =
     (case match_here (c # cs) of
        Some d \<Rightarrow> Some d
      | None \<Rightarrow> re_search cs)"

definition parse_interval_query :: "string \<Rightarrow> interval option" where
  "parse_interval_query qs =
     (if qs \<noteq> [] then
        (case re_search qs of
           None \<Rightarrow> None
         | Some d \<Rightarrow>
             (let d = (if startswith qs ''hg19.'' then d\<lparr>iv_assembly := Some ''hg19''\<rparr> else d);
                  d = (if startswith qs ''mm9.'' then d\<lparr>iv_assembly := Some ''mm9''\<rparr> else d)
              in Some d))
      else None)"

text \<open>A genomic position argument: an integer, text, or a value of another type.\<close>

datatype posval = PosInt int | PosStr string | PosOther

definition safe_genome_pos :: "posval \<Rightarrow> error + int" where
  "safe_genome_pos s =
     (case s of
        PosInt n \<Rightarrow> Inr n
      | PosStr x \<Rightarrow>
          (case py_int (filter (\<lambda>c. c \<noteq> CHR '','') x) of
             None \<Rightarrow> Inl ValueError
           | Some n \<Rightarrow> Inr n)
      | PosOther \<Rightarrow> Inl ValueError)"

definition build_genomic_pos_query ::
  "env \<Rightarrow> builder \<Rightarrow> string \<Rightarrow> posval \<Rightarrow> posval \<Rightarrow> string option \<Rightarrow> error + json" where
  "build_genomic_pos_query E self chr0 gstart0 gend0 assembly =
     (case safe_genome_pos gstart0 of
        Inl e \<Rightarrow> Inl e
      | Inr gstart \<Rightarrow>
     (case safe_genome_pos gend0 of
        Inl e \<Rightarrow> Inl e
      | Inr gend \<Rightarrow>
     (let chr = (if startswith (lower chr0) ''chr'' then drop 3 chr0 else chr0);
          genomic_pos_field = ''genomic_pos'';
          genomic_pos_field =
            (case assembly of
               None \<Rightarrow> genomic_pos_field
             | Some a \<Rightarrow>
                 if a \<noteq> [] then
                   (let f = (if a = ''hg19'' then ''genomic_pos_hg19'' else genomic_pos_field)
                    in if a = ''mm9'' then ''genomic_pos_mm9'' else f)
                 else genomic_pos_field);
          q = JObj [(''nested'', JObj
                [(''path'', JStr genomic_pos_field),
                 (''query'', JObj [(''bool'', JObj [(''must'', JList
                    [JObj [(''term'', JObj [(genomic_pos_field @ ''.chr'', JStr (lower chr))])],
                     JObj [(''range'', JObj [(genomic_pos_field @ ''.start'',
                                              JObj [(''lte'', JInt gend)])])],
                     JObj [(''range'', JObj [(genomic_pos_field @ ''.end'',
                                              JObj [(''gte'', JInt gstart)])])]])])])])];
          q = add_query_filters E self q
      in Inr (with_options self [(''query'', q)]))))"

subsection \<open>The scoped-identifier builder\<close>

text \<open>
  An id is an integer or text; \<open>scopes\<close> is absent, one field name, a list of field
  names, or a value of another type.
\<close>

datatype idval = IdInt int | IdStr string

datatype scopes = ScopesNone | ScopesStr string | ScopesSeq "string list" | ScopesOther

text \<open>
  Modelled from the spec: \<open>is_int\<close> on an id (see \<open>is_int_str\<close>); an integer is
  integer-shaped.
\<close>

definition is_int_id :: "idval \<Rightarrow> bool" where
  "is_int_id i = (case i of IdInt n \<Rightarrow> True | IdStr s \<Rightarrow> is_int_str s)"

definition id_json :: "idval \<Rightarrow> json" where
  "id_json i = (case i of IdInt n \<Rightarrow> JInt n | IdStr s \<Rightarrow> JStr s)"

function show_nat :: "nat \<Rightarrow> string" where
  "show_nat n =
     (if n < 10 then [char_of (48 + n)]
      else show_nat (n div 10) @ [char_of (48 + n mod 10)])"
  by pat_completeness auto
termination
  by (relation "measure (\<lambda>n. n)") auto

definition show_int :: "int \<Rightarrow> string" where
  "show_int i = (if i < 0 then CHR ''-'' # show_nat (nat (- i)) else show_nat (nat i))"

text \<open>\<open>u"{}".format(id)\<close>.\<close>

definition format_id :: "idval \<Rightarrow> string" where
  "format_id i = (case i of IdInt n \<Rightarrow> show_int n | IdStr s \<Rightarrow> s)"

definition build_id_query :: "env \<Rightarrow> builder \<Rightarrow> idval \<Rightarrow> scopes \<Rightarrow> error + json" where
  "build_id_query E self i scps =
     (let id_is_int = is_int_id i;
          sel =
            (case scps of
               ScopesNone \<Rightarrow>
                 if id_is_int then
                   Inr (JObj [(''multi_match'', JObj
                          [(''query'', id_json i),
                           (''fields'', JList [JStr ''entrezgene'', JStr ''retired''])])])
                 else
                   Inr (JObj [(''match'', JObj [(''ensemblgene'', JObj
                          [(''query'', JStr (format_id i)),
                           (''operator'', JStr ''and'')])])])
             | ScopesStr field \<Rightarrow>
                 if field \<in> set [''entrezgene'', ''retired''] then
                   (if id_is_int then Inr (JObj [(''match'', JObj [(field, id_json i)])])
                    else Inr nohits_query)
                 else
                   Inr (JObj [(''match'', JObj [(field, JObj
                          [(''query'', JStr (format_id i)),
                           (''operator'', JStr ''and'')])])])
             | ScopesSeq flds \<Rightarrow>
                 (let int_fields = [];
                      str_fields = flds;
                      int_fields = (if ''entrezgene'' \<in> set str_fields
                                    then int_fields @ [''entrezgene''] else int_fields);
                      str_fields = remove1 ''entrezgene'' str_fields;
                      int_fields = (if ''retired'' \<in> set str_fields
                                    then int_fields @ [''retired''] else int_fields);
                      str_fields = remove1 ''retired'' str_fields
                  in if id_is_int then
                       (if length int_fields = 1 then
                          Inr (JObj [(''match'', JObj [(int_fields ! 0, id_json i)])])
                        else if length int_fields = 2 then
                          Inr (JObj [(''multi_match'', JObj
                                 [(''query'', id_json i),
                                  (''fields'', JList (map JStr int_fields))])])
                        else Inr nohits_query)
                     else if str_fields \<noteq> [] then
                       Inr (JObj [(''multi_match'', JObj
                              [(''query'', JStr (format_id i)),
                               (''fields'', JList (map JStr str_fields)),
                               (''operator'', JStr ''and'')])])
                     else Inr nohits_query)
             | ScopesOther \<Rightarrow> Inl ValueError)
      in case sel of
           Inl e \<Rightarrow> Inl e
         | Inr q \<Rightarrow>
             (let q = add_query_filters E self q;
                  q = add_species_custom_filters_score q
              in Inr (with_options self [(''query'', q)])))"

subsection \<open>Compiling a raw query\<close>

definition species_all_message :: string where
  "species_all_message =
     ''genomic interval query cannot be combined '' @
     ''with '' @ [CHR 0x22] @ ''species=all'' @ [CHR 0x22] @ '' parameter. '' @
     ''Specify a single species.''"

text \<open>
  \<open>query\<close> returns the compiled query together with the builder, whose \<open>species\<close>
  field the interval branch overwrites with its own first element (an \<open>IndexError\<close>
  on an empty list).
\<close>

definition query :: "env \<Rightarrow> builder \<Rightarrow> string \<Rightarrow> error + (json \<times> builder)" where
  "query E self q0 =
     (let q = translate_datasource E q0
      in case parse_interval_query q of
           Some d \<Rightarrow>
             (case species self of
                Ids ts \<Rightarrow>
                  (case ts of
                     [] \<Rightarrow> Inl IndexError
                   | t # rest \<Rightarrow>
                       (let self = self\<lparr>species := Ids [t]\<rparr>
                        in case build_genomic_pos_query E self (iv_chr d)
                                  (PosStr (iv_gstart d)) (PosStr (iv_gend d)) (iv_assembly d) of
                             Inl e \<Rightarrow> Inl e
                           | Inr r \<Rightarrow> Inr (r, self)))
              | AllSpecies \<Rightarrow> Inl (QueryError species_all_message))
         | None \<Rightarrow>
             (case generate_query E self q of
                Inl e \<Rightarrow> Inl e
              | Inr g \<Rightarrow>
                  (let g = add_species_custom_filters_score g;
                       r = [(''query'', g)];
                       r = add_facet_filters self r
                   in Inr (with_options self r, self))))"

section \<open>Notions used in the statements\<close>

subsection \<open>Resolved tokens\<close>

text \<open>
  What one token of a selector resolves to: its integer when it is integer-shaped, else
  its \<open>TAXONOMY\<close> entry when it is a known name, else nothing.
\<close>

definition resolve_tok :: "tok \<Rightarrow> int option" where
  "resolve_tok t = (case int_tok t of Some n \<Rightarrow> Some n | None \<Rightarrow> taxonomy_tok t)"

text \<open>
  The tokens of a selector: the trimmed, lower-cased pieces of text between commas, or
  the elements of a sequence as they are.
\<close>

definition selector_tokens :: "selector \<Rightarrow> tok list" where
  "selector_tokens sel =
     (case sel of
        SelStr s \<Rightarrow> map (\<lambda>x. TokStr (lower (strip x))) (split_comma s)
      | SelSeq ss \<Rightarrow> ss
      | _ \<Rightarrow> [])"

subsection \<open>Clauses of the scope filter\<close>

text \<open>
  The clauses the enabled conditions contribute, in the order the composer visits them:
  the species clause (none for \<open>'all'\<close> and for an empty list), the two existence
  flags, each saved filter that resolves, and one clause per \<open>exists\<close> and per
  \<open>missing\<close> field.
\<close>

definition enabled_clauses :: "env \<Rightarrow> builder \<Rightarrow> json list" where
  "enabled_clauses E self =
     (case species self of
        AllSpecies \<Rightarrow> []
      | Ids ts \<Rightarrow>
          (case ts of
             [] \<Rightarrow> []
           | [t] \<Rightarrow> [JObj [(''term'', JObj [(''taxid'', JInt t)])]]
           | _ \<Rightarrow> [JObj [(''terms'', JObj [(''taxid'', JList (map JInt ts))])]])) @
     (if entrezonly self then [JObj [(''exists'', JObj [(''field'', JStr ''entrezgene'')])]] else []) @
     (if ensemblonly self then [JObj [(''exists'', JObj [(''field'', JStr ''ensemblgene'')])]] else []) @
     List.map_filter (user_filter E) (case userfilter self of None \<Rightarrow> [] | Some ns \<Rightarrow> ns) @
     map (\<lambda>f. JObj [(''exists'', JObj [(''field'', JStr f)])])
       (case existsfilter self of None \<Rightarrow> [] | Some fs \<Rightarrow> fs) @
     map (\<lambda>f. JObj [(''missing'', JObj [(''field'', JStr f)])])
       (case missingfilter self of None \<Rightarrow> [] | Some fs \<Rightarrow> fs)"

definition combine_clauses :: "json list \<Rightarrow> json" where
  "combine_clauses cs = (case cs of [] \<Rightarrow> JList [] | [c] \<Rightarrow> c | _ \<Rightarrow> JObj [(''and'', JList cs)])"

subsection \<open>Reading a query structure\<close>

definition obj_get :: "string \<Rightarrow> json \<Rightarrow> json option" where
  "obj_get k j = (case j of JObj kvs \<Rightarrow> map_of kvs k | _ \<Rightarrow> None)"

fun obj_path :: "string list \<Rightarrow> json \<Rightarrow> json option" where
  "obj_path [] j = Some j"
| "obj_path (k # ks) j = (case obj_get k j of None \<Rightarrow> None | Some v \<Rightarrow> obj_path ks v)"





subsection \<open>Reading a dis-max query\<close>

text \<open>
  The raw query with its double quotes and backslashes removed.
\<close>

definition unquoted :: "string \<Rightarrow> string" where
  "unquoted q = filter (\<lambda>c. c \<noteq> CHR 0x22 \<and> c \<noteq> CHR 0x5C) q"

text \<open>Every string of a structure: its keys and its string leaves.\<close>

fun json_strings :: "json \<Rightarrow> string list" where
  "json_strings (JStr s) = [s]"
| "json_strings (JList xs) = concat (map json_strings xs)"
| "json_strings (JObj kvs) = concat (map (\<lambda>kv. fst kv # json_strings (snd kv)) kvs)"
| "json_strings j = []"

definition dis_max_queries :: "json \<Rightarrow> json list" where
  "dis_max_queries j =
     (case obj_path [''dis_max'', ''queries''] j of
        Some (JList xs) \<Rightarrow> xs
      | _ \<Rightarrow> [])"

text \<open>
  A clause of the dis-max list in short: the kind of its query, the first key under it
  (the field, or \<open>query\<close> for the catch-all) and its weight.
\<close>

definition clause_summary :: "json \<Rightarrow> (string \<times> string \<times> json) option" where
  "clause_summary c =
     (case obj_path [''function_score'', ''query''] c of
        Some (JObj [(kind, JObj ((field, v) # rest))]) \<Rightarrow>
          (case obj_path [''function_score'', ''weight''] c of
             Some w \<Rightarrow> Some (kind, field, w)
           | None \<Rightarrow> None)
      | _ \<Rightarrow> None)"

text \<open>
  The query text a clause of the dis-max list embeds: the text under the field for a
  phrase match, the \<open>query\<close> entry for the catch-all, and the \<open>query\<close> entry of the
  object under the field for the other matches.
\<close>

definition clause_text :: "json \<Rightarrow> string option" where
  "clause_text c =
     (case obj_path [''function_score'', ''query''] c of
        Some (JObj [(kind, JObj ((field, v) # rest))]) \<Rightarrow>
          (case v of
             JStr t \<Rightarrow> Some t
           | JObj kvs \<Rightarrow>
               (case map_of kvs ''query'' of
                  Some (JStr t) \<Rightarrow> Some t
                | _ \<Rightarrow> None)
           | _ \<Rightarrow> None)
      | _ \<Rightarrow> None)"

definition json_number :: "json \<Rightarrow> rat option" where
  "json_number j =
     (case j of
        JInt n \<Rightarrow> Some (of_int n)
      | JDec m e \<Rightarrow> Some (of_int m / 10 ^ e)
      | _ \<Rightarrow> None)"

definition weight_below :: "rat \<Rightarrow> json \<Rightarrow> bool" where
  "weight_below b c =
     (case obj_path [''function_score'', ''weight''] c of
        None \<Rightarrow> False
      | Some w \<Rightarrow> (case json_number w of None \<Rightarrow> False | Some x \<Rightarrow> x < b))"

subsection \<open>Genomic positions as written\<close>

text \<open>
  A position argument is well formed when it is an integer, or text of digits and
  digit-grouping commas with at least one digit. Its value is the integer itself, or
  the decimal number its digits spell, the commas skipped.
\<close>

definition well_formed_pos :: "posval \<Rightarrow> bool" where
  "well_formed_pos p =
     (case p of
        PosInt n \<Rightarrow> True
      | PosStr g \<Rightarrow> list_all is_pos_char g \<and> list_ex is_digit g
      | PosOther \<Rightarrow> False)"

definition pos_value :: "posval \<Rightarrow> int" where
  "pos_value p =
     (case p of
        PosInt n \<Rightarrow> n
      | PosStr g \<Rightarrow> int (foldl (\<lambda>a c. 10 * a + digit_val c) 0 (filter is_digit g))
      | PosOther \<Rightarrow> 0)"

subsection \<open>Stored genomic positions\<close>

text \<open>
  A stored genomic position, as the documents of the index hold it under
  \<open>genomic_pos\<close> and its assembly variants: a chromosome, a start and an end.
\<close>

record stored_pos =
  sp_chr :: string
  sp_start :: int
  sp_end :: int

text \<open>
  Modelled from the spec: the execution engine is outside the sources; the specification
  reads the clauses the genomic builder emits as "match exact chromosome AND
  (range.start \<le> queried-end) AND (range.end \<ge> queried-start)", both bounds
  inclusive. Under the nested path \<open>p\<close> a \<open>term\<close> clause on \<open>p.chr\<close> is equality of
  text, and a \<open>range\<close> clause with \<open>lte\<close> (\<open>gte\<close>) on \<open>p.start\<close> or \<open>p.end\<close> is \<open>\<le>\<close>
  (\<open>\<ge>\<close>) on that number.
\<close>

definition clause_holds :: "string \<Rightarrow> stored_pos \<Rightarrow> json \<Rightarrow> bool" where
  "clause_holds p d c =
     (case c of
        JObj [(k, JObj [(f, v)])] \<Rightarrow>
          if k = ''term'' then f = p @ ''.chr'' \<and> v = JStr (sp_chr d)
          else if k = ''range'' then
            (case v of
               JObj [(b, JInt n)] \<Rightarrow>
                 (let x = (if f = p @ ''.start'' then Some (sp_start d)
                           else if f = p @ ''.end'' then Some (sp_end d)
                           else None)
                  in case x of
                       None \<Rightarrow> False
                     | Some y \<Rightarrow>
                         if b = ''lte'' then y \<le> n
                         else if b = ''gte'' then n \<le> y
                         else False)
             | _ \<Rightarrow> False)
          else False
      | _ \<Rightarrow> False)"

text \<open>
  Modelled from the spec: a \<open>nested\<close> query with a \<open>bool/must\<close> list matches a stored
  position when every clause of the list holds for it.
\<close>

definition nested_matches :: "json \<Rightarrow> stored_pos \<Rightarrow> bool" where
  "nested_matches j d =
     (case obj_path [''nested'', ''path''] j of
        Some (JStr p) \<Rightarrow>
          (case obj_path [''nested'', ''query'', ''bool'', ''must''] j of
             Some (JList cs) \<Rightarrow> list_all (clause_holds p d) cs
           | _ \<Rightarrow> False)
      | _ \<Rightarrow> False)"

subsection \<open>Example collaborators\<close>

text \<open>
  For the concrete instances: collaborators that change nothing (no translation, no
  saved filter, an inherited filter wrapper that returns its query as it is, no
  generated query), and a builder with a species value and every other option left at
  its default.
\<close>

abbreviation example_env :: env where
  "example_env \<equiv>
     \<lparr>translate_datasource = (\<lambda>s. s), generate_query = (\<lambda>b s. Inl ValueError),
      add_query_filters = (\<lambda>b j. j), user_filter = (\<lambda>n. None)\<rparr>"

abbreviation plain_builder :: "species \<Rightarrow> builder" where
  "plain_builder sp \<equiv>
     \<lparr>species = sp, species_facet_filter = None, entrezonly = False,
      ensemblonly = False, userfilter = None, existsfilter = None,
      missingfilter = None, query_options = []\<rparr>"

section \<open>Index routing\<close>

lemma tier_1_species_set:
  "set tier_1_species = {9606, 10090, 10116, 7227, 6239, 7955, 3702, 8364, 9823}"
  by (simp add: tier_1_species_def TAXONOMY_def insert_commute)

lemma outside_tier_1_iff:
  "(0 < length (filter (\<lambda>t. t \<notin> set tier_1_species) (remdups ts))) =
   (\<exists>t \<in> set ts. t \<notin> set tier_1_species)"
  by (auto simp: filter_empty_conv)

text \<open>
  C4. The index router selects the full index exactly when the species is \<open>'all'\<close> or
  some resolved taxonomy id lies outside the tier-1 set (the values of \<open>TAXONOMY\<close>), and
  the tier-1 index otherwise; the index chosen does not depend on the state it replaces.
\<close>

theorem set_index_routing:
  "index (set_index AllSpecies self) = ES_INDEX_NAME \<and>
   ((index (set_index (Ids ts) self) = ES_INDEX_NAME) =
      (\<exists>t \<in> set ts. t \<notin> {9606, 10090, 10116, 7227, 6239, 7955, 3702, 8364, 9823})) \<and>
   ((index (set_index (Ids ts) self) = ES_INDEX_NAME_TIER1) =
      (\<forall>t \<in> set ts. t \<in> {9606, 10090, 10116, 7227, 6239, 7955, 3702, 8364, 9823})) \<and>
   set_index sp self = set_index sp self'"
proof -
  have a: "index (set_index AllSpecies self) = ES_INDEX_NAME"
    by (simp add: set_index_def)
  have b: "(index (set_index (Ids ts) self) = ES_INDEX_NAME) =
     (\<exists>t \<in> set ts. t \<notin> {9606, 10090, 10116, 7227, 6239, 7955, 3702, 8364, 9823})"
    unfolding tier_1_species_set [symmetric]
    by (simp add: set_index_def outside_tier_1_iff del: length_greater_0_conv)
  have c: "(index (set_index (Ids ts) self) = ES_INDEX_NAME_TIER1) =
     (\<forall>t \<in> set ts. t \<in> {9606, 10090, 10116, 7227, 6239, 7955, 3702, 8364, 9823})"
    unfolding tier_1_species_set [symmetric]
    by (simp add: set_index_def outside_tier_1_iff del: length_greater_0_conv)
  have d: "set_index sp self = set_index sp self'"
    by (cases sp) (simp_all add: set_index_def)
  from a b c d show ?thesis by blast
qed

theorem set_index_routing_witness:
  "index (set_index (Ids [9606, 10090]) \<lparr>index = ES_INDEX_NAME\<rparr>) = ES_INDEX_NAME_TIER1 \<and>
   index (set_index (Ids [9606, 4932]) \<lparr>index = ES_INDEX_NAME_TIER1\<rparr>) = ES_INDEX_NAME"
  using set_index_routing [of "\<lparr>index = ES_INDEX_NAME\<rparr>" "[9606, 10090]"]
        set_index_routing [of "\<lparr>index = ES_INDEX_NAME_TIER1\<rparr>" "[9606, 4932]"]
  by simp

section \<open>Species resolution\<close>

lemma resolve_loop_map_filter:
  "resolve_loop acc ss = acc @ List.map_filter resolve_tok ss"
  by (induction ss arbitrary: acc)
     (simp_all add: List.map_filter_simps resolve_tok_def split: option.splits)

text \<open>
  C2, as the claim states it, fails: the selector \<open>'foo'\<close> is accepted without error
  and resolves to the empty list, because its only token is neither integer-shaped nor
  a known species name and is dropped.
\<close>

theorem cleaned_species_empty_counterexample:
  "cleaned_species (SelStr ''foo'') False = Inr (Some (Ids []))"
  by code_simp

text \<open>
  C2, amended. For every selector the resolver accepts, the result is absent exactly
  for an absent selector under \<open>default_to_none\<close>; it is the \<open>'all'\<close> sentinel exactly
  for text that lower-cases to \<open>all\<close>; otherwise it is a list of integers: the three
  default ids for an absent selector, the integer itself for an integer, and for text
  or a sequence one id per token that is integer-shaped or a \<open>TAXONOMY\<close> name, in
  token order, the unrecognised tokens dropped. That list is empty exactly when no
  token resolves.
\<close>

theorem cleaned_species_resolved:
  assumes "cleaned_species sel d = Inr r"
  shows "(r = None) = (sel = SelNone \<and> d) \<and>
         (r = Some AllSpecies) = (\<exists>s. sel = SelStr s \<and> lower s = ''all'') \<and>
         (\<forall>ts. r = Some (Ids ts) \<longrightarrow>
            (case sel of
               SelNone \<Rightarrow> ts = [9606, 10090, 10116]
             | SelInt n \<Rightarrow> ts = [n]
             | _ \<Rightarrow> ts = List.map_filter resolve_tok (selector_tokens sel) \<and>
                    (ts = []) = (\<forall>t \<in> set (selector_tokens sel). resolve_tok t = None)))"
  using assms
  by (cases sel)
     (auto simp: cleaned_species_def default_species_def selector_tokens_def
        resolve_loop_map_filter List.map_filter_def filter_empty_conv split: if_splits)

theorem cleaned_species_resolved_witness:
  "cleaned_species (SelStr ''Human, 10090 ,foo'') False = Inr (Some (Ids [9606, 10090])) \<and>
   List.map_filter resolve_tok (selector_tokens (SelStr ''Human, 10090 ,foo'')) = [9606, 10090]"
proof -
  have h: "cleaned_species (SelStr ''Human, 10090 ,foo'') False = Inr (Some (Ids [9606, 10090]))"
    by code_simp
  from cleaned_species_resolved [OF h] h show ?thesis by simp
qed

section \<open>The scope-filter composer\<close>

lemma foldl_append_map: "foldl (\<lambda>acc f. acc @ [g f]) xs fs = xs @ map g fs"
  by (induction fs arbitrary: xs) simp_all

lemma foldl_append_map_filter:
  "foldl (\<lambda>acc x. case g x of None \<Rightarrow> acc | Some f \<Rightarrow> acc @ [f]) xs ns = xs @ List.map_filter g ns"
  by (induction ns arbitrary: xs) (simp_all add: List.map_filter_simps split: option.splits)

lemma combine_clauses_alt:
  "(if cs \<noteq> [] then (if length cs = 1 then cs ! 0 else JObj [(''and'', JList cs)]) else JList cs)
   = combine_clauses cs"
  by (cases cs rule: list.exhaust; simp add: combine_clauses_def split: list.splits)

lemma collected_filters:
  "get_query_filters E self = combine_clauses (enabled_clauses E self)"
proof -
  have sp: "(if species_truthy (species self) \<and> species self \<noteq> AllSpecies then
               (if species_len (species self) = 1
                then [] @ [JObj [(''term'', JObj [(''taxid'', species_first (species self))])]]
                else [] @ [JObj [(''terms'', JObj [(''taxid'', species_json (species self))])]])
             else []) =
            (case species self of
        AllSpecies \<Rightarrow> []
      | Ids ts \<Rightarrow>
          (case ts of
             [] \<Rightarrow> []
           | [t] \<Rightarrow> [JObj [(''term'', JObj [(''taxid'', JInt t)])]]
           | _ \<Rightarrow> [JObj [(''terms'', JObj [(''taxid'', JList (map JInt ts))])]]))"
    by (simp add: species_truthy_def species_len_def species_first_def species_json_def
          split: species.splits list.splits)
  show ?thesis
    unfolding get_query_filters_def Let_def sp combine_clauses_alt enabled_clauses_def
    by (simp add: foldl_append_map foldl_append_map_filter split: option.splits)
qed

text \<open>
  C6. With the clauses of the enabled conditions collected, \<open>get_query_filters\<close>
  yields no filter (the empty list) when there is no clause, the clause itself, unwrapped,
  when there is exactly one, and one \<open>and\<close> combinator over all of them when there are
  two or more.
\<close>

theorem get_query_filters_composition:
  "get_query_filters E self =
     (let cs = enabled_clauses E self
      in if length cs = 0 then JList []
         else if length cs = 1 then cs ! 0
         else JObj [(''and'', JList cs)])"
  using collected_filters [of E self]
  by (simp add: combine_clauses_def Let_def split: list.splits)

theorem get_query_filters_composition_witness:
  "get_query_filters
     (example_env\<lparr>user_filter :=
        (\<lambda>n. if n = ''mine''
              then Some (JObj [(''term'', JObj [(''symbol'', JStr ''cdk2'')])])
              else None)\<rparr>)
     ((plain_builder (Ids [9606]))
        \<lparr>userfilter := Some [''none'', ''mine''], existsfilter := Some [''refseq'']\<rparr>) =
   JObj [(''and'', JList
     [JObj [(''term'', JObj [(''taxid'', JInt 9606)])],
      JObj [(''term'', JObj [(''symbol'', JStr ''cdk2'')])],
      JObj [(''exists'', JObj [(''field'', JStr ''refseq'')])]])]"
  by (simp add: get_query_filters_composition enabled_clauses_def)

section \<open>The score augmenter\<close>





section \<open>The facet filter\<close>

text \<open>
  C9. With a species facet filter that is a non-empty list of ids, the clause stored
  under \<open>filter\<close> is a \<open>term\<close> on the first facet id when the resolved species has
  length one and a \<open>terms\<close> clause on the whole facet list otherwise, whatever the length
  of the facet list; the species \<open>'all'\<close> has length three.
\<close>

theorem add_facet_filters_by_species_length:
  assumes "species_facet_filter self = Some (Ids (f # fs))"
  shows "add_facet_filters self q =
           dict_set ''filter''
             (if species_len (species self) = 1
              then JObj [(''term'', JObj [(''taxid'', JInt f)])]
              else JObj [(''terms'', JObj [(''taxid'', JList (map JInt (f # fs)))])]) q \<and>
         species_len AllSpecies = 3 \<and>
         species_len (Ids ts) = length ts"
  using assms
  by (simp add: add_facet_filters_def species_truthy_def species_first_def species_json_def
        species_len_def)

theorem add_facet_filters_by_species_length_witness:
  "add_facet_filters
     ((plain_builder AllSpecies)\<lparr>species_facet_filter := Some (Ids [9606])\<rparr>)
     [(''query'', JNull)] =
     [(''query'', JNull),
      (''filter'', JObj [(''terms'', JObj [(''taxid'', JList [JInt 9606])])])] \<and>
   add_facet_filters
     ((plain_builder (Ids [10090]))\<lparr>species_facet_filter := Some (Ids [9606, 10116])\<rparr>)
     [(''query'', JNull)] =
     [(''query'', JNull),
      (''filter'', JObj [(''term'', JObj [(''taxid'', JInt 9606)])])]"
  by (simp add: add_facet_filters_by_species_length species_len_def)

section \<open>The scoped-identifier builder\<close>

text \<open>
  C3. With the single scope \<open>entrezgene\<close> or \<open>retired\<close> and an id that is not
  integer-shaped, \<open>build_id_query\<close> raises nothing and returns the zero-hit query
  (a match on a field that does not exist), passed through the inherited filter wrapper
  and the score envelope like every other id query.
\<close>

theorem build_id_query_nohits:
  assumes "scope = ''entrezgene'' \<or> scope = ''retired''" and "\<not> is_int_id i"
  shows "build_id_query E self i (ScopesStr scope) =
           Inr (with_options self
             [(''query'',
               add_species_custom_filters_score (add_query_filters E self nohits_query))])"
  using assms by (auto simp: build_id_query_def Let_def)

theorem build_id_query_nohits_witness:
  "\<not> is_int_id (IdStr ''not-a-number'') \<and>
   build_id_query
     example_env
     (plain_builder AllSpecies)
     (IdStr ''not-a-number'') (ScopesStr ''entrezgene'') =
   Inr (JObj [(''query'', add_species_custom_filters_score
                (JObj [(''match'', JObj [(''non_exist_field'', JStr [])])]))])"
proof -
  have n: "\<not> is_int_id (IdStr ''not-a-number'')"
    by (simp add: is_int_id_def is_int_str_def py_int_def strip_with_def is_int_space_def
          digits_value_def is_digit_def)
  show ?thesis
    using n build_id_query_nohits [of "''entrezgene''" "IdStr ''not-a-number''"]
    by (simp add: with_options_def nohits_query_def)
qed

section \<open>The relevance (dis-max) builder\<close>

lemma unquoted_filters:
  "filter (\<lambda>c. c \<noteq> CHR 0x5C) (filter (\<lambda>c. c \<noteq> CHR 0x22) q) = unquoted q"
  by (simp add: unquoted_def conj_commute)

lemma unquoted_idem: "unquoted (unquoted q) = unquoted q"
  by (simp add: unquoted_def)

lemma subst_template:
  "subst_q q dis_max_template =
     JObj [(''dis_max'', JObj
       [(''tie_breaker'', JInt 0),
        (''boost'', JInt 1),
        (''queries'', JList
          [JObj [(''function_score'', JObj
             [(''query'', JObj [(''match'', JObj [(''symbol'', JObj
                 [(''query'', JStr q),
                  (''analyzer'', JStr ''whitespace_lowercase'')])])]),
              (''weight'', JInt 5)])],
           JObj [(''function_score'', JObj
             [(''query'', JObj [(''match_phrase'', JObj [(''name'', JStr q)])]),
              (''weight'', JInt 4)])],
           JObj [(''function_score'', JObj
             [(''query'', JObj [(''match'', JObj [(''name'', JObj
                 [(''query'', JStr q),
                  (''operator'', JStr ''and''),
                  (''analyzer'', JStr ''whitespace_lowercase'')])])]),
              (''weight'', JInt 3)])],
           JObj [(''function_score'', JObj
             [(''query'', JObj [(''match'', JObj [(''unigene'', JObj
                 [(''query'', JStr q),
                  (''analyzer'', JStr ''string_lowercase'')])])]),
              (''weight'', JDec 11 1)])],
           JObj [(''function_score'', JObj
             [(''query'', JObj [(''match'', JObj [(''go'', JObj
                 [(''query'', JStr q),
                  (''analyzer'', JStr ''string_lowercase'')])])]),
              (''weight'', JDec 11 1)])],
           JObj [(''function_score'', JObj
             [(''query'', JObj [(''query_string'', JObj
                 [(''query'', JStr q),
                  (''default_operator'', JStr ''AND''),
                  (''auto_generate_phrase_queries'', JBool True)])]),
              (''weight'', JInt 1)])]])])]"
  by (simp add: dis_max_template_def)

lemma dis_max_query_cases:
  "dis_max_query q0 =
     (if list_ex is_control (unquoted q0) then Inl ValueError
      else case py_int (unquoted q0) of
             Some n \<Rightarrow>
               Inr (JObj [(''dis_max'', JObj
                 [(''tie_breaker'', JInt 0),
                  (''boost'', JInt 1),
                  (''queries'', JList
                     [JObj [(''function_score'', JObj
                        [(''query'', JObj [(''term'', JObj [(''entrezgene'', JInt n)])]),
                         (''weight'', JInt 8)])]])])])
           | None \<Rightarrow> Inr (subst_q (unquoted q0) dis_max_template))"
  unfolding dis_max_query_def unquoted_filters Let_def loads_template_def
  by (simp add: subst_template set_dis_max_queries_def split: option.splits)

lemma no_control_unquoted:
  "\<not> list_ex is_control q \<Longrightarrow> \<not> list_ex is_control (unquoted q)"
  by (simp add: unquoted_def list_ex_iff)

lemma standard_clauses_summary:
  "map clause_summary (dis_max_queries (subst_q x dis_max_template)) =
     [Some (''match'', ''symbol'', JInt 5),
      Some (''match_phrase'', ''name'', JInt 4),
      Some (''match'', ''name'', JInt 3),
      Some (''match'', ''unigene'', JDec 11 1),
      Some (''match'', ''go'', JDec 11 1),
      Some (''query_string'', ''query'', JInt 1)]"
  by (simp add: subst_template dis_max_queries_def obj_get_def clause_summary_def)

lemma standard_clauses_weights:
  "list_all (weight_below 8) (dis_max_queries (subst_q x dis_max_template))"
  by (simp add: subst_template dis_max_queries_def obj_get_def weight_below_def json_number_def)

text \<open>
  C8, as the claim states it, fails: the raw string \<open>"12"\<close>, written with its double
  quotes, does not parse as an integer, yet the standard clause list is not kept. The
  builder tests the string it has cleaned, \<open>12\<close>, and the clause list is the single
  \<open>entrezgene\<close> clause.
\<close>

theorem dis_max_query_quoted_integer_counterexample:
  "py_int [CHR 0x22, CHR ''1'', CHR ''2'', CHR 0x22] = None \<and>
   dis_max_query [CHR 0x22, CHR ''1'', CHR ''2'', CHR 0x22] =
     Inr (JObj [(''dis_max'', JObj
       [(''tie_breaker'', JInt 0),
        (''boost'', JInt 1),
        (''queries'', JList
           [JObj [(''function_score'', JObj
              [(''query'', JObj [(''term'', JObj [(''entrezgene'', JInt 12)])]),
               (''weight'', JInt 8)])]])])])"
proof -
  have a: "py_int [CHR 0x22, CHR ''1'', CHR ''2'', CHR 0x22] = None"
    by (simp add: py_int_def strip_with_def is_int_space_def digits_value_def is_digit_def)
  have b: "unquoted [CHR 0x22, CHR ''1'', CHR ''2'', CHR 0x22] = ''12''"
    by (simp add: unquoted_def)
  have c: "py_int ''12'' = Some 12"
    by (simp add: py_int_def strip_with_def is_int_space_def digits_value_def is_digit_def
          digit_val_def)
  show ?thesis
    using a by (simp add: dis_max_query_cases b c is_control_def)
qed

text \<open>
  C8, amended. For every raw query string without control characters, with its double
  quotes and backslashes removed first: when the cleaned string parses as an integer, the
  clause list is exactly one exact-match clause on \<open>entrezgene\<close> with weight 8, in
  place of the standard list; otherwise the result is the template with the cleaned
  string filled in, whose clauses are symbol, phrase name, name, unigene, go and the
  catch-all \<open>query_string\<close>, each with a weight below 8.
\<close>

theorem dis_max_query_clauses:
  assumes "\<not> list_ex is_control q"
  shows "\<exists>r. dis_max_query q = Inr r \<and>
           (case py_int (unquoted q) of
              Some n \<Rightarrow>
                dis_max_queries r =
                  [JObj [(''function_score'', JObj
                     [(''query'', JObj [(''term'', JObj [(''entrezgene'', JInt n)])]),
                      (''weight'', JInt 8)])]]
            | None \<Rightarrow>
                r = subst_q (unquoted q) dis_max_template \<and>
                map clause_summary (dis_max_queries r) =
                  [Some (''match'', ''symbol'', JInt 5),
                   Some (''match_phrase'', ''name'', JInt 4),
                   Some (''match'', ''name'', JInt 3),
                   Some (''match'', ''unigene'', JDec 11 1),
                   Some (''match'', ''go'', JDec 11 1),
                   Some (''query_string'', ''query'', JInt 1)] \<and>
                list_all (weight_below 8) (dis_max_queries r))"
proof (cases "py_int (unquoted q)")
  case None
  with no_control_unquoted [OF assms] show ?thesis
    by (simp add: dis_max_query_cases standard_clauses_summary standard_clauses_weights)
next
  case (Some n)
  with no_control_unquoted [OF assms] show ?thesis
    by (simp add: dis_max_query_cases dis_max_queries_def obj_get_def)
qed

theorem dis_max_query_clauses_witness:
  "dis_max_queries (case dis_max_query ''1017'' of Inr r \<Rightarrow> r | Inl e \<Rightarrow> JNull) =
     [JObj [(''function_score'', JObj
        [(''query'', JObj [(''term'', JObj [(''entrezgene'', JInt 1017)])]),
         (''weight'', JInt 8)])]]"
proof -
  have c: "py_int (unquoted ''1017'') = Some 1017"
    by (simp add: unquoted_def py_int_def strip_with_def is_int_space_def digits_value_def
          is_digit_def digit_val_def)
  have d: "\<not> list_ex is_control ''1017''"
    by (simp add: is_control_def)
  from dis_max_query_clauses [OF d] show ?thesis
    by (auto simp: c)
qed

lemma unquoted_clean: "CHR 0x22 \<notin> set (unquoted q) \<and> CHR 0x5C \<notin> set (unquoted q)"
  by (simp add: unquoted_def)

lemma json_strings_standard:
  "set (json_strings (subst_q x dis_max_template)) \<subseteq>
     insert x (set (json_strings dis_max_template))"
  by (auto simp: subst_template dis_max_template_def)

lemma template_strings_clean:
  "s \<in> set (json_strings dis_max_template) \<Longrightarrow> CHR 0x22 \<notin> set s \<and> CHR 0x5C \<notin> set s"
  by (auto simp: dis_max_template_def)

lemma standard_clauses_text:
  "map clause_text (dis_max_queries (subst_q x dis_max_template)) =
     [Some x, Some x, Some x, Some x, Some x, Some x]"
  by (simp add: subst_template dis_max_queries_def obj_get_def clause_text_def)

text \<open>
  C10. \<open>dis_max_query\<close> gives the same result on a raw string and on that string
  with every double quote and backslash removed, and it returns a query whenever the
  cleaned string holds no control character. In a query it returns, no string holds a
  double quote or a backslash; when the cleaned string is not an integer, the query text
  embedded in each of the six clauses is exactly the cleaned string, and when it is an
  integer the one clause holds that integer. The cleaned string is the raw string
  itself when the raw string holds neither character.
\<close>

theorem dis_max_query_unquoted:
  "dis_max_query q = dis_max_query (unquoted q) \<and>
   (\<not> list_ex is_control (unquoted q) \<longrightarrow> (\<exists>r. dis_max_query q = Inr r)) \<and>
   (\<forall>r. dis_max_query q = Inr r \<longrightarrow>
      (\<forall>s \<in> set (json_strings r). CHR 0x22 \<notin> set s \<and> CHR 0x5C \<notin> set s) \<and>
      (case py_int (unquoted q) of
         None \<Rightarrow>
           map clause_text (dis_max_queries r) =
             [Some (unquoted q), Some (unquoted q), Some (unquoted q),
              Some (unquoted q), Some (unquoted q), Some (unquoted q)]
       | Some n \<Rightarrow>
           dis_max_queries r =
             [JObj [(''function_score'', JObj
                [(''query'', JObj [(''term'', JObj [(''entrezgene'', JInt n)])]),
                 (''weight'', JInt 8)])]])) \<and>
   CHR 0x22 \<notin> set (unquoted q) \<and> CHR 0x5C \<notin> set (unquoted q) \<and>
   (CHR 0x22 \<notin> set q \<and> CHR 0x5C \<notin> set q \<longrightarrow> unquoted q = q)"
proof -
  have a: "dis_max_query q = dis_max_query (unquoted q)"
    by (simp add: dis_max_query_cases unquoted_idem cong: option.case_cong)
  have t: "\<not> list_ex is_control (unquoted q) \<longrightarrow> (\<exists>r. dis_max_query q = Inr r)"
    by (simp add: dis_max_query_cases split: option.splits)
  have b: "CHR 0x22 \<notin> set s \<and> CHR 0x5C \<notin> set s"
    if r: "dis_max_query q = Inr r" and s: "s \<in> set (json_strings r)" for r s
  proof (cases "py_int (unquoted q)")
    case None
    with r have "r = subst_q (unquoted q) dis_max_template"
      by (simp add: dis_max_query_cases split: if_splits)
    with s json_strings_standard [of "unquoted q"]
    have "s = unquoted q \<or> s \<in> set (json_strings dis_max_template)" by auto
    then show ?thesis using unquoted_clean template_strings_clean by blast
  next
    case (Some n)
    with r s show ?thesis
      by (auto simp: dis_max_query_cases split: if_splits)
  qed
  have c: "(case py_int (unquoted q) of
         None \<Rightarrow>
           map clause_text (dis_max_queries r) =
             [Some (unquoted q), Some (unquoted q), Some (unquoted q),
              Some (unquoted q), Some (unquoted q), Some (unquoted q)]
       | Some n \<Rightarrow>
           dis_max_queries r =
             [JObj [(''function_score'', JObj
                [(''query'', JObj [(''term'', JObj [(''entrezgene'', JInt n)])]),
                 (''weight'', JInt 8)])]])"
    if r: "dis_max_query q = Inr r" for r
  proof (cases "py_int (unquoted q)")
    case None
    with r have "r = subst_q (unquoted q) dis_max_template"
      by (simp add: dis_max_query_cases split: if_splits)
    with None show ?thesis
      by (simp add: standard_clauses_text)
  next
    case (Some n)
    with r show ?thesis
      by (auto simp: dis_max_query_cases dis_max_queries_def obj_get_def split: if_splits)
  qed
  have u: "CHR 0x22 \<notin> set q \<and> CHR 0x5C \<notin> set q \<longrightarrow> unquoted q = q"
    by (auto simp: unquoted_def filter_id_conv)
  from b c have bc: "\<forall>r. dis_max_query q = Inr r \<longrightarrow>
      (\<forall>s \<in> set (json_strings r). CHR 0x22 \<notin> set s \<and> CHR 0x5C \<notin> set s) \<and>
      (case py_int (unquoted q) of
         None \<Rightarrow>
           map clause_text (dis_max_queries r) =
             [Some (unquoted q), Some (unquoted q), Some (unquoted q),
              Some (unquoted q), Some (unquoted q), Some (unquoted q)]
       | Some n \<Rightarrow>
           dis_max_queries r =
             [JObj [(''function_score'', JObj
                [(''query'', JObj [(''term'', JObj [(''entrezgene'', JInt n)])]),
                 (''weight'', JInt 8)])]])"
    by simp
  show ?thesis
    by (intro conjI) (rule a, rule t, rule bc, rule conjunct1 [OF unquoted_clean],
      rule conjunct2 [OF unquoted_clean], rule u)
qed

theorem dis_max_query_unquoted_witness:
  "dis_max_query [CHR 0x22, CHR ''c'', CHR ''d'', CHR ''k'', CHR 0x5C, CHR ''2'', CHR 0x22] =
     dis_max_query ''cdk2'' \<and>
   dis_max_query ''cdk2'' = Inr (subst_q ''cdk2'' dis_max_template) \<and>
   map clause_text (dis_max_queries
     (case dis_max_query
             [CHR 0x22, CHR ''c'', CHR ''d'', CHR ''k'', CHR 0x5C, CHR ''2'', CHR 0x22] of
        Inr r \<Rightarrow> r
      | Inl e \<Rightarrow> JNull)) =
     [Some ''cdk2'', Some ''cdk2'', Some ''cdk2'', Some ''cdk2'', Some ''cdk2'', Some ''cdk2'']"
proof -
  let ?raw = "[CHR 0x22, CHR ''c'', CHR ''d'', CHR ''k'', CHR 0x5C, CHR ''2'', CHR 0x22]"
  have u: "unquoted ?raw = ''cdk2''"
    by (simp add: unquoted_def)
  have v: "unquoted ''cdk2'' = ''cdk2''"
    by (simp add: unquoted_def)
  have c: "py_int ''cdk2'' = None"
    by (simp add: py_int_def strip_with_def is_int_space_def digits_value_def is_digit_def)
  have d: "\<not> list_ex is_control ''cdk2''"
    by (simp add: is_control_def)
  have e: "dis_max_query ''cdk2'' = Inr (subst_q ''cdk2'' dis_max_template)"
    using c d by (simp add: dis_max_query_cases [of "''cdk2''"] v)
  from dis_max_query_unquoted [of ?raw]
  have 1: "dis_max_query ?raw = dis_max_query ''cdk2''"
    by (simp add: u)
  from dis_max_query_unquoted [of ?raw] 1 e
  have 2: "map clause_text (dis_max_queries (subst_q ''cdk2'' dis_max_template)) =
     [Some ''cdk2'', Some ''cdk2'', Some ''cdk2'', Some ''cdk2'', Some ''cdk2'', Some ''cdk2'']"
    by (simp add: u c)
  from 1 2 e show ?thesis by simp
qed

section \<open>The genomic-interval builder\<close>

lemma digit_not_space: "is_digit c \<Longrightarrow> \<not> is_int_space c"
  by (auto simp: is_digit_def is_int_space_def)

lemma digit_not_sign: "is_digit c \<Longrightarrow> c \<noteq> CHR ''+'' \<and> c \<noteq> CHR ''-''"
  by (auto simp: is_digit_def)

lemma parse_digits_all_digits:
  "list_all is_digit s \<Longrightarrow> \<exists>n. parse_digits acc s = Some n"
  by (induction acc s rule: parse_digits.induct) simp_all

lemma strip_digits:
  assumes "s \<noteq> []" and "list_all is_digit s"
  shows "strip_with is_int_space s = s"
proof -
  from assms have h: "\<not> is_int_space (hd s)"
    by (cases s) (simp_all add: digit_not_space)
  from assms have l: "\<not> is_int_space (last s)"
    by (simp add: digit_not_space list_all_iff)
  from assms h have 1: "dropWhile is_int_space s = s"
    by (cases s) simp_all
  from assms l have 2: "dropWhile is_int_space (rev s) = rev s"
    by (cases "rev s") (simp_all add: hd_rev [symmetric])
  show ?thesis by (simp add: strip_with_def 1 2)
qed

lemma py_int_digits:
  assumes "s \<noteq> []" and "list_all is_digit s"
  shows "\<exists>n. py_int s = Some n"
proof -
  from assms obtain c cs where s: "s = c # cs" by (cases s) auto
  with assms have c: "is_digit c" and cs: "list_all is_digit cs" by simp_all
  from parse_digits_all_digits [OF cs] obtain n where "parse_digits (digit_val c) cs = Some n"
    by blast
  with c digit_not_sign [OF c] show ?thesis
    by (simp add: py_int_def strip_digits [OF assms, unfolded s] s digits_value_def)
qed

lemma safe_genome_pos_digits:
  assumes "list_all is_pos_char g" and "list_ex is_digit g"
  shows "\<exists>n. safe_genome_pos (PosStr g) = Inr n"
proof -
  have d: "is_pos_char k \<Longrightarrow> k \<noteq> CHR '','' \<Longrightarrow> is_digit k" for k
    by (auto simp: is_pos_char_def is_digit_def)
  have nc: "is_digit k \<Longrightarrow> k \<noteq> CHR '',''" for k
    by (auto simp: is_digit_def)
  from assms(1) have 1: "list_all is_digit (filter (\<lambda>k. k \<noteq> CHR '','') g)"
    by (auto simp: list_all_iff d)
  from assms(2) obtain k where "k \<in> set g" and "is_digit k"
    by (auto simp: list_ex_iff)
  with nc [of k] have "k \<in> set (filter (\<lambda>k. k \<noteq> CHR '','') g)"
    by simp
  then have 2: "filter (\<lambda>k. k \<noteq> CHR '','') g \<noteq> []"
    by (metis empty_iff empty_set)
  from py_int_digits [OF 2 1] show ?thesis
    by (auto simp: safe_genome_pos_def)
qed

lemma nested_matches_core:
  "nested_matches
     (JObj [(''nested'', JObj
        [(''path'', JStr f),
         (''query'', JObj [(''bool'', JObj [(''must'', JList
            [JObj [(''term'', JObj [(f @ ''.chr'', JStr c)])],
             JObj [(''range'', JObj [(f @ ''.start'', JObj [(''lte'', JInt e)])])],
             JObj [(''range'', JObj [(f @ ''.end'', JObj [(''gte'', JInt s)])])]])])])])]) doc
   = (sp_chr doc = c \<and> sp_start doc \<le> e \<and> s \<le> sp_end doc)"
  by (auto simp: nested_matches_def obj_get_def clause_holds_def)

lemma lower_append: "lower (p @ r) = lower p @ lower r"
  by (simp add: lower_def)

lemma length_lower: "length (lower s) = length s"
  by (simp add: lower_def)

lemma chr_prefix_stripped:
  assumes "lower p = ''chr''"
  shows "lower (if startswith (lower (p @ r)) ''chr'' then drop 3 (p @ r) else p @ r) = lower r"
proof -
  have "length p = 3" using assms length_lower [of p] by simp
  then show ?thesis using assms by (simp add: startswith_def lower_append)
qed

lemma parse_digits_value:
  "list_all is_digit s \<Longrightarrow>
     parse_digits acc s = Some (foldl (\<lambda>a c. 10 * a + digit_val c) acc s)"
  by (induction acc s rule: parse_digits.induct) simp_all

lemma py_int_digits_value:
  assumes "s \<noteq> []" and "list_all is_digit s"
  shows "py_int s = Some (int (foldl (\<lambda>a c. 10 * a + digit_val c) 0 s))"
proof -
  from assms obtain c cs where s: "s = c # cs" by (cases s) auto
  with assms have c: "is_digit c" and cs: "list_all is_digit cs" by simp_all
  from c digit_not_sign [OF c] show ?thesis
    by (simp add: py_int_def strip_digits [OF assms, unfolded s] s digits_value_def
          parse_digits_value [OF cs])
qed

lemma safe_genome_pos_value:
  assumes "well_formed_pos p"
  shows "safe_genome_pos p = Inr (pos_value p)"
proof (cases p)
  case (PosInt n)
  then show ?thesis by (simp add: safe_genome_pos_def pos_value_def)
next
  case (PosStr g)
  with assms have pc: "list_all is_pos_char g" and ex: "list_ex is_digit g"
    by (simp_all add: well_formed_pos_def)
  have d: "is_pos_char k \<Longrightarrow> (k \<noteq> CHR '','') = is_digit k" for k
    by (auto simp: is_pos_char_def is_digit_def)
  from pc have f: "filter (\<lambda>k. k \<noteq> CHR '','') g = filter is_digit g"
    by (intro filter_cong) (simp_all add: list_all_iff d)
  from ex obtain k where "k \<in> set g" and "is_digit k"
    by (auto simp: list_ex_iff)
  then have "k \<in> set (filter is_digit g)" by simp
  then have ne: "filter is_digit g \<noteq> []"
    by (metis empty_iff empty_set)
  have al: "list_all is_digit (filter is_digit g)"
    by (simp add: list_all_iff)
  from py_int_digits_value [OF ne al] PosStr show ?thesis
    by (simp add: safe_genome_pos_def pos_value_def f)
next
  case PosOther
  with assms show ?thesis by (simp add: well_formed_pos_def)
qed

lemma build_genomic_pos_query_normalised:
  assumes "safe_genome_pos gstart = Inr s" and "safe_genome_pos gend = Inr e"
  shows "build_genomic_pos_query E self c gstart gend assembly =
     Inr (with_options self [(''query'', add_query_filters E self
       (JObj [(''nested'', JObj
          [(''path'', JStr (if assembly = Some ''hg19'' then ''genomic_pos_hg19''
                            else if assembly = Some ''mm9'' then ''genomic_pos_mm9''
                            else ''genomic_pos'')),
           (''query'', JObj [(''bool'', JObj [(''must'', JList
              [JObj [(''term'', JObj
                 [((if assembly = Some ''hg19'' then ''genomic_pos_hg19''
                    else if assembly = Some ''mm9'' then ''genomic_pos_mm9''
                    else ''genomic_pos'') @ ''.chr'',
                   JStr (lower (if startswith (lower c) ''chr'' then drop 3 c else c)))])],
               JObj [(''range'', JObj
                 [((if assembly = Some ''hg19'' then ''genomic_pos_hg19''
                    else if assembly = Some ''mm9'' then ''genomic_pos_mm9''
                    else ''genomic_pos'') @ ''.start'', JObj [(''lte'', JInt e)])])],
               JObj [(''range'', JObj
                 [((if assembly = Some ''hg19'' then ''genomic_pos_hg19''
                    else if assembly = Some ''mm9'' then ''genomic_pos_mm9''
                    else ''genomic_pos'') @ ''.end'', JObj [(''gte'', JInt s)])])]])])])])]))])"
proof -
  consider (hg) "assembly = Some ''hg19''" | (mm) "assembly = Some ''mm9''"
    | (other) "assembly \<noteq> Some ''hg19''" "assembly \<noteq> Some ''mm9''"
    by blast
  then show ?thesis
  proof cases
    case hg
    then show ?thesis by (simp add: build_genomic_pos_query_def assms)
  next
    case mm
    then show ?thesis by (simp add: build_genomic_pos_query_def assms)
  next
    case other
    then show ?thesis
      by (cases assembly) (simp_all add: build_genomic_pos_query_def assms Let_def)
  qed
qed

text \<open>
  C5, as the claim states it, fails: a start that holds no digit, such as the text
  \<open>,\<close> that the interval pattern captures from \<open>chr1:,-5\<close>, makes \<open>int\<close> raise
  \<open>ValueError\<close> once its commas are removed, and no query is emitted.
\<close>

theorem build_genomic_pos_query_no_digit_counterexample:
  "build_genomic_pos_query example_env (plain_builder (Ids [9606]))
     ''1'' (PosStr '','') (PosStr ''5'') None = Inl ValueError \<and>
   query example_env (plain_builder (Ids [9606])) ''chr1:,-5'' = Inl ValueError"
  by code_simp

text \<open>
  C5, amended. For every chromosome token and optional assembly, and every start and
  end that is an integer or text of digits and digit-grouping commas with at least one
  digit, \<open>build_genomic_pos_query\<close> returns, under \<open>query\<close> and through the inherited
  filter wrapper, a nested query on the field chosen by the assembly
  (\<open>genomic_pos_hg19\<close>, \<open>genomic_pos_mm9\<close>, else \<open>genomic_pos\<close>) whose \<open>bool/must\<close>
  list is: \<open>term\<close> on the lower-cased chromosome with one leading \<open>chr\<close> (in any
  case) removed, \<open>range\<close> start \<open>lte\<close> the value of the end, \<open>range\<close> end \<open>gte\<close> the
  value of the start, where the value of a text is the number its digits spell with
  the commas skipped. A stored position matches it exactly when its chromosome is
  equal, its start is at most the queried end and its end is at least the queried
  start, so a shared endpoint matches.
\<close>

theorem build_genomic_pos_query_shape:
  assumes "well_formed_pos gstart" and "well_formed_pos gend"
  shows "\<exists>field chrom core.
           field = (if assembly = Some ''hg19'' then ''genomic_pos_hg19''
                    else if assembly = Some ''mm9'' then ''genomic_pos_mm9''
                    else ''genomic_pos'') \<and>
           chrom = lower (if startswith (lower c) ''chr'' then drop 3 c else c) \<and>
           core = JObj [(''nested'', JObj
                    [(''path'', JStr field),
                     (''query'', JObj [(''bool'', JObj [(''must'', JList
                        [JObj [(''term'', JObj [(field @ ''.chr'', JStr chrom)])],
                         JObj [(''range'', JObj [(field @ ''.start'',
                                 JObj [(''lte'', JInt (pos_value gend))])])],
                         JObj [(''range'', JObj [(field @ ''.end'',
                                 JObj [(''gte'', JInt (pos_value gstart))])])]])])])])] \<and>
           build_genomic_pos_query E self c gstart gend assembly =
             Inr (with_options self [(''query'', add_query_filters E self core)]) \<and>
           (\<forall>doc. nested_matches core doc =
                    (sp_chr doc = chrom \<and> sp_start doc \<le> pos_value gend \<and>
                     pos_value gstart \<le> sp_end doc)) \<and>
           (\<forall>p r. c = p @ r \<and> lower p = ''chr'' \<longrightarrow> chrom = lower r) \<and>
           (\<forall>a b. pos_value (PosStr (a @ '','' @ b)) = pos_value (PosStr (a @ b))) \<and>
           (\<forall>a k. is_digit k \<longrightarrow>
                  pos_value (PosStr (a @ [k])) = 10 * pos_value (PosStr a) + int (digit_val k))"
proof -
  let ?field = "if assembly = Some ''hg19'' then ''genomic_pos_hg19''
                else if assembly = Some ''mm9'' then ''genomic_pos_mm9''
                else ''genomic_pos''"
  let ?chrom = "lower (if startswith (lower c) ''chr'' then drop 3 c else c)"
  let ?core = "JObj [(''nested'', JObj
                    [(''path'', JStr ?field),
                     (''query'', JObj [(''bool'', JObj [(''must'', JList
                        [JObj [(''term'', JObj [(?field @ ''.chr'', JStr ?chrom)])],
                         JObj [(''range'', JObj [(?field @ ''.start'',
                                 JObj [(''lte'', JInt (pos_value gend))])])],
                         JObj [(''range'', JObj [(?field @ ''.end'',
                                 JObj [(''gte'', JInt (pos_value gstart))])])]])])])])]"
  have q: "build_genomic_pos_query E self c gstart gend assembly =
             Inr (with_options self [(''query'', add_query_filters E self ?core)])"
    by (rule build_genomic_pos_query_normalised
          [OF safe_genome_pos_value [OF assms(1)] safe_genome_pos_value [OF assms(2)]])
  have m: "\<forall>doc. nested_matches ?core doc =
                    (sp_chr doc = ?chrom \<and> sp_start doc \<le> pos_value gend \<and>
                     pos_value gstart \<le> sp_end doc)"
    by (simp only: nested_matches_core) simp
  have p: "\<forall>p r. c = p @ r \<and> lower p = ''chr'' \<longrightarrow> ?chrom = lower r"
    using chr_prefix_stripped by blast
  have k: "\<forall>a b. pos_value (PosStr (a @ '','' @ b)) = pos_value (PosStr (a @ b))"
    by (simp add: pos_value_def is_digit_def)
  have g: "\<forall>a k. is_digit k \<longrightarrow>
                  pos_value (PosStr (a @ [k])) = 10 * pos_value (PosStr a) + int (digit_val k)"
    by (simp add: pos_value_def)
  show ?thesis
    by (intro exI conjI)
       (rule refl, rule refl, rule refl, rule q, rule m, rule p, rule k, rule g)
qed

theorem build_genomic_pos_query_shape_witness:
  "well_formed_pos (PosStr ''1,000'') \<and> pos_value (PosStr ''1,000'') = 1000 \<and>
   build_genomic_pos_query
     example_env
     (plain_builder (Ids [9606]))
     ''Chr1'' (PosStr ''1,000'') (PosStr ''2,000'') (Some ''hg19'') =
   Inr (JObj [(''query'', JObj [(''nested'', JObj
          [(''path'', JStr ''genomic_pos_hg19''),
           (''query'', JObj [(''bool'', JObj [(''must'', JList
              [JObj [(''term'', JObj [(''genomic_pos_hg19.chr'', JStr ''1'')])],
               JObj [(''range'', JObj [(''genomic_pos_hg19.start'', JObj [(''lte'', JInt 2000)])])],
               JObj [(''range'', JObj [(''genomic_pos_hg19.end'', JObj [(''gte'', JInt 1000)])])]])])])])])]) \<and>
   nested_matches
     (JObj [(''nested'', JObj
          [(''path'', JStr ''genomic_pos_hg19''),
           (''query'', JObj [(''bool'', JObj [(''must'', JList
              [JObj [(''term'', JObj [(''genomic_pos_hg19.chr'', JStr ''1'')])],
               JObj [(''range'', JObj [(''genomic_pos_hg19.start'', JObj [(''lte'', JInt 2000)])])],
               JObj [(''range'', JObj [(''genomic_pos_hg19.end'', JObj [(''gte'', JInt 1000)])])]])])])])])
     \<lparr>sp_chr = ''1'', sp_start = 500, sp_end = 1000\<rparr>"
proof -
  have a: "well_formed_pos (PosStr ''1,000'')"
    by (simp add: well_formed_pos_def is_pos_char_def is_digit_def)
  have b: "well_formed_pos (PosStr ''2,000'')"
    by (simp add: well_formed_pos_def is_pos_char_def is_digit_def)
  have v: "pos_value (PosStr ''1,000'') = 1000" "pos_value (PosStr ''2,000'') = 2000"
    by (simp_all add: pos_value_def is_digit_def digit_val_def)
  have l: "lower ''Chr1'' = ''chr1''" "lower ''1'' = ''1''"
    by (simp_all add: lower_def lower_char_def)
  from build_genomic_pos_query_shape [OF a b, of "Some ''hg19''" "''Chr1''"
     "example_env"
     "plain_builder (Ids [9606])"]
  have "build_genomic_pos_query
     example_env
     (plain_builder (Ids [9606]))
     ''Chr1'' (PosStr ''1,000'') (PosStr ''2,000'') (Some ''hg19'') =
   Inr (JObj [(''query'', JObj [(''nested'', JObj
          [(''path'', JStr ''genomic_pos_hg19''),
           (''query'', JObj [(''bool'', JObj [(''must'', JList
              [JObj [(''term'', JObj [(''genomic_pos_hg19.chr'', JStr ''1'')])],
               JObj [(''range'', JObj [(''genomic_pos_hg19.start'', JObj [(''lte'', JInt 2000)])])],
               JObj [(''range'', JObj [(''genomic_pos_hg19.end'', JObj [(''gte'', JInt 1000)])])]])])])])])]) \<and>
   nested_matches
     (JObj [(''nested'', JObj
          [(''path'', JStr ''genomic_pos_hg19''),
           (''query'', JObj [(''bool'', JObj [(''must'', JList
              [JObj [(''term'', JObj [(''genomic_pos_hg19.chr'', JStr ''1'')])],
               JObj [(''range'', JObj [(''genomic_pos_hg19.start'', JObj [(''lte'', JInt 2000)])])],
               JObj [(''range'', JObj [(''genomic_pos_hg19.end'', JObj [(''gte'', JInt 1000)])])]])])])])])
     \<lparr>sp_chr = ''1'', sp_start = 500, sp_end = 1000\<rparr>"
    by (auto simp: l v startswith_def with_options_def)
  with a v(1) show ?thesis by simp
qed

section \<open>Compiling a genomic-interval query\<close>

lemma build_genomic_pos_query_returns:
  assumes "safe_genome_pos gstart = Inr s" and "safe_genome_pos gend = Inr e"
  shows "\<exists>r. build_genomic_pos_query E self c gstart gend assembly = Inr r"
  using assms by (simp add: build_genomic_pos_query_def Let_def)

lemma match_here_positions:
  "match_here s = Some d \<Longrightarrow>
     list_all is_pos_char (iv_gstart d) \<and> list_all is_pos_char (iv_gend d)"
  by (auto simp: match_here_def Let_def list_all_iff
        split: if_splits list.splits dest: set_takeWhileD)

lemma re_search_positions:
  "re_search s = Some d \<Longrightarrow>
     list_all is_pos_char (iv_gstart d) \<and> list_all is_pos_char (iv_gend d)"
  by (induction s) (auto split: option.splits dest: match_here_positions)

lemma parse_interval_positions:
  "parse_interval_query s = Some d \<Longrightarrow>
     list_all is_pos_char (iv_gstart d) \<and> list_all is_pos_char (iv_gend d)"
  by (auto simp: parse_interval_query_def Let_def
        split: if_splits option.splits dest: re_search_positions)

text \<open>
  C1, as the claim states it, fails: with the two taxonomy ids 9606 and 10090 the
  interval query \<open>chr1:1-2\<close> compiles; \<open>query\<close> keeps the first id, 9606, as the
  builder's species and returns the genomic-position query (shown with collaborators
  that leave the query text and the built query as they are).
\<close>

theorem query_interval_multi_species_counterexample:
  "parse_interval_query ''chr1:1-2'' =
     Some \<lparr>iv_chr = ''1'', iv_gstart = ''1'', iv_gend = ''2'', iv_assembly = None\<rparr> \<and>
   query
     example_env
     (plain_builder (Ids [9606, 10090]))
     ''chr1:1-2'' =
   Inr (JObj [(''query'', JObj [(''nested'', JObj
          [(''path'', JStr ''genomic_pos''),
           (''query'', JObj [(''bool'', JObj [(''must'', JList
              [JObj [(''term'', JObj [(''genomic_pos.chr'', JStr ''1'')])],
               JObj [(''range'', JObj [(''genomic_pos.start'', JObj [(''lte'', JInt 2)])])],
               JObj [(''range'', JObj [(''genomic_pos.end'', JObj [(''gte'', JInt 1)])])]])])])])])],
        plain_builder (Ids [9606]))"
  by code_simp

text \<open>
  C1, amended. For every raw query that, after the data-source translation, is
  classified as a genomic interval: with species \<open>'all'\<close> compilation fails with the
  \<open>QueryError\<close> that asks for a single species; with a list of one or more taxonomy
  ids (and a digit in each captured position) compilation succeeds, the builder's
  species is narrowed to the first id of the list, and the result is the
  genomic-position query built for the narrowed builder.
\<close>

theorem query_interval_species:
  assumes "parse_interval_query (translate_datasource E q) = Some d"
  shows "(species self = AllSpecies \<longrightarrow>
            query E self q = Inl (QueryError species_all_message)) \<and>
         (\<forall>t ts. species self = Ids (t # ts) \<and>
                  list_ex is_digit (iv_gstart d) \<and> list_ex is_digit (iv_gend d) \<longrightarrow>
            (\<exists>r. build_genomic_pos_query E (self\<lparr>species := Ids [t]\<rparr>) (iv_chr d)
                    (PosStr (iv_gstart d)) (PosStr (iv_gend d)) (iv_assembly d) = Inr r \<and>
                  query E self q = Inr (r, self\<lparr>species := Ids [t]\<rparr>)))"
proof -
  have a: "query E self q = Inl (QueryError species_all_message)"
    if "species self = AllSpecies"
    using that assms by (simp add: query_def)
  have b: "\<exists>r. build_genomic_pos_query E (self\<lparr>species := Ids [t]\<rparr>) (iv_chr d)
                    (PosStr (iv_gstart d)) (PosStr (iv_gend d)) (iv_assembly d) = Inr r \<and>
                  query E self q = Inr (r, self\<lparr>species := Ids [t]\<rparr>)"
    if sp: "species self = Ids (t # ts)"
      and gs: "list_ex is_digit (iv_gstart d)" and ge: "list_ex is_digit (iv_gend d)"
    for t ts
  proof -
    from parse_interval_positions [OF assms]
    have "list_all is_pos_char (iv_gstart d)" and "list_all is_pos_char (iv_gend d)"
      by simp_all
    with gs ge obtain s e where s: "safe_genome_pos (PosStr (iv_gstart d)) = Inr s"
      and e: "safe_genome_pos (PosStr (iv_gend d)) = Inr e"
      using safe_genome_pos_digits by blast
    from build_genomic_pos_query_returns [OF s e]
    obtain r where r: "build_genomic_pos_query E (self\<lparr>species := Ids [t]\<rparr>) (iv_chr d)
                    (PosStr (iv_gstart d)) (PosStr (iv_gend d)) (iv_assembly d) = Inr r"
      by blast
    with sp assms show ?thesis
      by (simp add: query_def)
  qed
  from a b show ?thesis by blast
qed

theorem query_interval_species_witness:
  "query
     example_env
     (plain_builder AllSpecies)
     ''hg19.chr7:100-200'' = Inl (QueryError species_all_message) \<and>
   (\<exists>r. query
     example_env
     (plain_builder (Ids [10090, 9606]))
     ''hg19.chr7:100-200'' =
       Inr (r, plain_builder (Ids [10090])))"
proof -
  let ?E = "example_env"
  have p: "parse_interval_query (translate_datasource ?E ''hg19.chr7:100-200'') =
     Some \<lparr>iv_chr = ''7'', iv_gstart = ''100'', iv_gend = ''200'', iv_assembly = Some ''hg19''\<rparr>"
    by code_simp
  have d: "list_ex is_digit ''100''" "list_ex is_digit ''200''"
    by (simp_all add: is_digit_def)
  from query_interval_species [OF p, of
     "plain_builder AllSpecies"]
  have 1: "query ?E
     (plain_builder AllSpecies)
     ''hg19.chr7:100-200'' = Inl (QueryError species_all_message)"
    by simp
  from query_interval_species [OF p, of
     "plain_builder (Ids [10090, 9606])"] d
  have 2: "\<exists>r. query ?E
     (plain_builder (Ids [10090, 9606]))
     ''hg19.chr7:100-200'' =
       Inr (r, plain_builder (Ids [10090]))"
    by auto
  from 1 2 show ?thesis by blast
qed

end
